theory Spec2Isabelle
  imports Main "HOL-Library.Sublist"
begin

section \<open>Calendar arithmetic of the date library\<close>

text \<open>
  The scripts compute every date with moment.js:
  \<^verbatim>\<open>moment().subtract(1, "y").add(1, "d").add(x, "w").add(y, "d").format("YYYY-MM-DD")\<close>.
  The library is a dependency of the repository, so its calendar arithmetic is written out
  here the way the library performs it on the local calendar fields. A moment is its local
  calendar date and its local time of day; \<open>m_month\<close> is the calendar month 1..12 (the
  library's own \<open>month()\<close> is this number minus one, and \<open>MM\<close> prints this number).
  First the arithmetic of the calendar itself (\<open>civil...\<close>), where every date exists;
  then what the runtime makes of a local date-time that the time zone skips.
\<close>

record moment =
  m_year :: int
  m_month :: nat
  m_date :: nat
  m_time :: nat

definition isLeapYear :: "int \<Rightarrow> bool" where
  "isLeapYear y = ((y mod 4 = 0 \<and> y mod 100 \<noteq> 0) \<or> y mod 400 = 0)"

definition daysInMonth :: "int \<Rightarrow> nat \<Rightarrow> nat" where
  "daysInMonth y m =
     (if m = 2 then (if isLeapYear y then 29 else 28)
      else 31 - (((m - 1) mod 7) mod 2))"



text \<open>
  \<open>subtract(1, "y")\<close> moves the month back by twelve and clamps the day of the month to
  the length of the month it lands in (29 February becomes 28 February): the calendar
  fields it hands to the runtime.
\<close>

definition civilSubtractYear :: "moment \<Rightarrow> moment" where
  "civilSubtractYear m =
     m\<lparr>m_year := m_year m - 1,
       m_date := (if m_date m < 29 then m_date m
                  else min (m_date m) (daysInMonth (m_year m - 1) (m_month m)))\<rparr>"

text \<open>
  \<open>add(n, "d")\<close> sets the day of the month to \<open>date + n\<close>; the calendar carries the
  overflow into months and years: one carry per day stepped.
\<close>

definition nextDay :: "moment \<Rightarrow> moment" where
  "nextDay m =
     (if m_date m < daysInMonth (m_year m) (m_month m) then m\<lparr>m_date := m_date m + 1\<rparr>
      else if m_month m < 12 then m\<lparr>m_month := m_month m + 1, m_date := 1\<rparr>
      else m\<lparr>m_year := m_year m + 1, m_month := 1, m_date := 1\<rparr>)"

definition prevDay :: "moment \<Rightarrow> moment" where
  "prevDay m =
     (if 1 < m_date m then m\<lparr>m_date := m_date m - 1\<rparr>
      else if 1 < m_month m
        then m\<lparr>m_month := m_month m - 1, m_date := daysInMonth (m_year m) (m_month m - 1)\<rparr>
      else m\<lparr>m_year := m_year m - 1, m_month := 12, m_date := 31\<rparr>)"

definition civilAddDays :: "moment \<Rightarrow> int \<Rightarrow> moment" where
  "civilAddDays m n = (if 0 \<le> n then (nextDay ^^ nat n) m else (prevDay ^^ nat (- n)) m)"

subsection \<open>Local time\<close>


definition subtractYear :: "(moment \<Rightarrow> moment) \<Rightarrow> moment \<Rightarrow> moment" where
  "subtractYear tz m = tz (civilSubtractYear m)"

definition addDays :: "(moment \<Rightarrow> moment) \<Rightarrow> moment \<Rightarrow> int \<Rightarrow> moment" where
  "addDays tz m n = (if n = 0 then m else tz (civilAddDays m n))"

text \<open>\<open>add(x, "w")\<close> is \<open>add(7 * x, "d")\<close>: a duration of weeks is stored as days.\<close>

definition addWeeks :: "(moment \<Rightarrow> moment) \<Rightarrow> moment \<Rightarrow> int \<Rightarrow> moment" where
  "addWeeks tz m n = addDays tz m (n * 7)"

text \<open>A zone that skips nothing, and the zone that skipped 30 December 2011.\<close>

definition utc :: "moment \<Rightarrow> moment" where
  "utc m = m"

definition apia :: "moment \<Rightarrow> moment" where
  "apia m =
     (if m_year m = 2011 \<and> m_month m = 12 \<and> m_date m = 30 then m\<lparr>m_date := 31\<rparr> else m)"

subsection \<open>Formatting \<open>YYYY-MM-DD\<close>\<close>

text \<open>
  The library pads with \<open>zeroFill(number, targetLength)\<close>: the decimal digits of the
  absolute value, zeros in front up to the target length, a minus sign for a negative
  number.
\<close>

definition digit_char :: "nat \<Rightarrow> char" where
  "digit_char n = ''0123456789'' ! n"

function decimal :: "nat \<Rightarrow> string" where
  "decimal n = (if n < 10 then [digit_char n] else decimal (n div 10) @ [digit_char (n mod 10)])"
  by pat_completeness auto
termination
  by (relation "measure id") auto

declare decimal.simps [simp del]

definition zeroFill :: "int \<Rightarrow> nat \<Rightarrow> string" where
  "zeroFill number targetLength =
     (let absNumber = decimal (nat \<bar>number\<bar>);
          zerosToFill = targetLength - length absNumber
      in (if 0 \<le> number then [] else ''-'') @ replicate zerosToFill (CHR ''0'') @ absNumber)"

definition format_YMD :: "moment \<Rightarrow> string" where
  "format_YMD m =
     zeroFill (m_year m) 4 @ ''-'' @ zeroFill (int (m_month m)) 2 @ ''-'' @
     zeroFill (int (m_date m)) 2"

text \<open>Reading a formatted date back: the decoder used to show that formatting loses nothing.\<close>

definition dec_val :: "string \<Rightarrow> nat" where
  "dec_val s = foldl (\<lambda>a c. 10 * a + (of_char c - 48)) 0 s"

definition int_val :: "string \<Rightarrow> int" where
  "int_val s = (case s of [] \<Rightarrow> 0
                | c # cs \<Rightarrow> if c = CHR ''-'' then - int (dec_val cs) else int (dec_val s))"

definition not_dash :: "char \<Rightarrow> bool" where
  "not_dash c = (c \<noteq> CHR ''-'')"

definition parse_YMD :: "string \<Rightarrow> int \<times> nat \<times> nat" where
  "parse_YMD s =
     (let r = rev s;
          d = rev (takeWhile not_dash r);
          r1 = tl (dropWhile not_dash r);
          mo = rev (takeWhile not_dash r1);
          y = rev (tl (dropWhile not_dash r1))
      in (int_val y, dec_val mo, dec_val d))"

section \<open>Resolving grid coordinates\<close>

text \<open>
  Every entry point starts with the same two range checks and the same date computation
  (\<^verbatim>\<open>removeCommit.js\<close> lines 14-30, and the same lines in the single-commit and the
  advanced script). An exception is an \<open>Inl\<close> carrying the message of the \<open>Error\<close>.
\<close>

definition validateCoordinates :: "int \<Rightarrow> int \<Rightarrow> string + unit" where
  "validateCoordinates x y =
     (if x < 0 \<or> x > 54 then Inl ''X coordinate must be between 0 and 54 (weeks)''
      else if y < 0 \<or> y > 6 then Inl ''Y coordinate must be between 0 and 6 (days)''
      else Inr ())"

definition targetDate :: "(moment \<Rightarrow> moment) \<Rightarrow> moment \<Rightarrow> int \<Rightarrow> int \<Rightarrow> moment" where
  "targetDate tz now x y = addDays tz (addWeeks tz (addDays tz (subtractYear tz now) 1) x) y"

definition targetDateStr :: "(moment \<Rightarrow> moment) \<Rightarrow> moment \<Rightarrow> int \<Rightarrow> int \<Rightarrow> string" where
  "targetDateStr tz now x y = format_YMD (targetDate tz now x y)"

definition resolve :: "(moment \<Rightarrow> moment) \<Rightarrow> moment \<Rightarrow> int \<Rightarrow> int \<Rightarrow> string + string" where
  "resolve tz now x y =
     (case validateCoordinates x y of
        Inl e \<Rightarrow> Inl e
      | Inr _ \<Rightarrow> Inr (targetDateStr tz now x y))"


section \<open>The history store, the console and the prompt\<close>

text \<open>
  The scripts talk to git through simple-git, write to the console and (the advanced
  script) ask on a readline interface. The state records what has been issued: the git
  calls in order, the console lines in order, the number of questions asked and whether
  the readline interface has been closed. \<open>RawRebaseOnto h\<close> stands for
  \<^verbatim>\<open>git.raw(['rebase', '--onto', h^, h])\<close> and \<open>RawFilterBranch hs\<close> for
  \<^verbatim>\<open>git.raw(['filter-branch', '--force', '--commit-filter', script, 'HEAD'])\<close> with the
  script that skips exactly the hashes \<open>hs\<close>.
\<close>

record commit =
  hash :: string
  message :: string
  date :: string

record log_result =
  log_all :: "commit list"
  log_latest :: "commit option"

datatype git_call =
    Log "string list"
  | CheckoutLocalBranch string
  | Checkout string
  | BranchLocal
  | DeleteLocalBranch string
  | RawRebaseOnto string
  | RawFilterBranch "string list"
  | Push "string list"

datatype line = Out string | Err string

record state =
  calls :: "git_call list"
  console :: "line list"
  questions :: nat
  closed :: bool

text \<open>
  What the world answers is a parameter: the clock and the time zone, what a git call returns or whether it
  throws given the calls made before it, how the date library reads a commit's date
  string (\<open>None\<close>: an invalid date), and what the user types at each question.
\<close>

record world =
  clock :: moment
  localTime :: "moment \<Rightarrow> moment"
  dateNow :: nat
  parseDate :: "string \<Rightarrow> moment option"
  gitError :: "git_call list \<Rightarrow> git_call \<Rightarrow> string option"
  logResult :: "git_call list \<Rightarrow> log_result"
  branchesAll :: "git_call list \<Rightarrow> string list"
  answers :: "nat \<Rightarrow> string"

definition mutating :: "git_call \<Rightarrow> bool" where
  "mutating c = (case c of Log _ \<Rightarrow> False | BranchLocal \<Rightarrow> False | _ \<Rightarrow> True)"

definition git :: "world \<Rightarrow> git_call \<Rightarrow> state \<Rightarrow> string option \<times> state" where
  "git w c s = (gitError w (calls s) c, s\<lparr>calls := calls s @ [c]\<rparr>)"

definition console_log :: "string \<Rightarrow> state \<Rightarrow> state" where
  "console_log msg s = s\<lparr>console := console s @ [Out msg]\<rparr>"

definition console_error :: "string \<Rightarrow> state \<Rightarrow> state" where
  "console_error msg s = s\<lparr>console := console s @ [Err msg]\<rparr>"

definition toStr :: "int \<Rightarrow> string" where
  "toStr n = (if n < 0 then ''-'' else []) @ decimal (nat \<bar>n\<bar>)"

definition str_includes :: "string \<Rightarrow> string \<Rightarrow> bool" where
  "str_includes s t = sublist t s"

datatype ret = Undefined | Commits "commit list"

section \<open>Selecting the commits of a date\<close>

text \<open>
  \<^verbatim>\<open>log.all.filter(commit => moment(commit.date).format("YYYY-MM-DD") === targetDateStr)\<close>
  (\<^verbatim>\<open>removeCommit.js\<close> lines 38-41, \<^verbatim>\<open>removeSingleCommit\<close> lines 152-155). An invalid
  moment formats as \<^verbatim>\<open>Invalid date\<close>.
\<close>

definition formatDate :: "moment option \<Rightarrow> string" where
  "formatDate m = (case m of None \<Rightarrow> ''Invalid date'' | Some d \<Rightarrow> format_YMD d)"

definition matchingCommits :: "world \<Rightarrow> commit list \<Rightarrow> string \<Rightarrow> commit list" where
  "matchingCommits w commits target =
     filter (\<lambda>commit. formatDate (parseDate w (date commit)) = target) commits"

text \<open>
  The single-commit script takes \<^verbatim>\<open>matchingCommits[0]\<close> once it knows the list is not
  empty (lines 157-163).
\<close>

definition commitToRemove :: "commit list \<Rightarrow> commit option" where
  "commitToRemove matching = (if length matching = 0 then None else Some (matching ! 0))"

text \<open>The date-only part of a commit's timestamp, as the date library reads it.\<close>

definition same_day :: "moment \<Rightarrow> moment \<Rightarrow> bool" where
  "same_day a b = (m_year a = m_year b \<and> m_month a = m_month b \<and> m_date a = m_date b)"

definition on_day :: "world \<Rightarrow> moment \<Rightarrow> commit \<Rightarrow> bool" where
  "on_day w d commit = (case parseDate w (date commit) of None \<Rightarrow> False | Some m \<Rightarrow> same_day m d)"

section \<open>The basic script\<close>

text \<open>\<^verbatim>\<open>removeCommit.js\<close>: \<open>removeCommitByHash\<close> logs and rethrows what the rebase throws.\<close>

definition removeCommitByHash :: "world \<Rightarrow> string \<Rightarrow> state \<Rightarrow> (string + unit) \<times> state" where
  "removeCommitByHash w commitHash s =
     (let s1 = console_log (''Removing commit: '' @ commitHash) s in
      case git w (RawRebaseOnto commitHash) s1 of
        (Some e, s2) \<Rightarrow>
          (Inl e, console_error (''Error removing commit '' @ commitHash @ '': '' @ e) s2)
      | (None, s2) \<Rightarrow>
          (Inr (), console_log (''Commit '' @ commitHash @ '' removed successfully'') s2))"

fun removeEach :: "world \<Rightarrow> commit list \<Rightarrow> state \<Rightarrow> (string + unit) \<times> state" where
  "removeEach w [] s = (Inr (), s)"
| "removeEach w (commit # rest) s =
     (case removeCommitByHash w (hash commit) s of
        (Inl e, s1) \<Rightarrow> (Inl e, s1)
      | (Inr _, s1) \<Rightarrow> removeEach w rest s1)"

definition coordText :: "int \<Rightarrow> int \<Rightarrow> string" where
  "coordText x y = ''x:'' @ toStr x @ '', y:'' @ toStr y"

definition listCommit :: "commit \<Rightarrow> string" where
  "listCommit commit = ''- '' @ take 7 (hash commit) @ '': '' @ message commit"

definition removeCommitByCoordinates_try ::
    "world \<Rightarrow> int \<Rightarrow> int \<Rightarrow> bool \<Rightarrow> state \<Rightarrow> (string + unit) \<times> state" where
  "removeCommitByCoordinates_try w x y force s =
     (case validateCoordinates x y of
        Inl e \<Rightarrow> (Inl e, s)
      | Inr _ \<Rightarrow>
         (let target = targetDateStr (localTime w) (clock w) x y;
              s1 = console_log (''Looking for commits on '' @ target @ '' ('' @ coordText x y @ '')'') s
          in case git w (Log []) s1 of
               (Some e, s2) \<Rightarrow> (Inl e, s2)
             | (None, s2) \<Rightarrow>
                (let commitsToRemove = matchingCommits w (log_all (logResult w (calls s1))) target
                 in if length commitsToRemove = 0
                    then (Inr (), console_log (''No commits found for coordinates '' @ coordText x y
                                               @ '' on '' @ target) s2)
                    else
                     (let s3 = console_log (''Found '' @ toStr (int (length commitsToRemove))
                                            @ '' commit(s) to remove:'') s2;
                          s4 = fold (\<lambda>commit. console_log (listCommit commit)) commitsToRemove s3
                      in if \<not> force
                         then (Inr (), console_log ''Use force=true to proceed with removal'' s4)
                         else (case removeEach w commitsToRemove s4 of
                                 (Inl e, s5) \<Rightarrow> (Inl e, s5)
                               | (Inr _, s5) \<Rightarrow>
                                   (Inr (), console_log (''Successfully removed commits for coordinates ''
                                                         @ coordText x y) s5))))))"

text \<open>The \<^verbatim>\<open>catch\<close> of the basic script prints the message and swallows the error.\<close>

definition removeCommitByCoordinates :: "world \<Rightarrow> int \<Rightarrow> int \<Rightarrow> bool \<Rightarrow> state \<Rightarrow> state" where
  "removeCommitByCoordinates w x y force s =
     (case removeCommitByCoordinates_try w x y force s of
        (Inl e, s1) \<Rightarrow> console_error (''Error removing commits: '' @ e) s1
      | (Inr _, s1) \<Rightarrow> s1)"

section \<open>The single-commit script\<close>

definition removeSingleCommitByHash ::
    "world \<Rightarrow> string \<Rightarrow> state \<Rightarrow> (string + unit) \<times> state" where
  "removeSingleCommitByHash w commitHash s =
     (let s1 = console_log (''Removing commit: '' @ commitHash) s in
      case git w (RawRebaseOnto commitHash) s1 of
        (Some e, s2) \<Rightarrow>
          (Inl e, console_error (''Error removing commit '' @ commitHash @ '': '' @ e) s2)
      | (None, s2) \<Rightarrow>
          (Inr (), console_log (''Commit '' @ commitHash @ '' removed successfully'') s2))"

definition removeSingleCommitByCoordinates_try ::
    "world \<Rightarrow> int \<Rightarrow> int \<Rightarrow> bool \<Rightarrow> state \<Rightarrow> (string + unit) \<times> state" where
  "removeSingleCommitByCoordinates_try w x y force s =
     (case validateCoordinates x y of
        Inl e \<Rightarrow> (Inl e, s)
      | Inr _ \<Rightarrow>
         (let target = targetDateStr (localTime w) (clock w) x y;
              s1 = console_log (''Looking for commits on '' @ target @ '' ('' @ coordText x y @ '')'') s
          in case git w (Log []) s1 of
               (Some e, s2) \<Rightarrow> (Inl e, s2)
             | (None, s2) \<Rightarrow>
                (let matching = matchingCommits w (log_all (logResult w (calls s1))) target
                 in case commitToRemove matching of
                      None \<Rightarrow>
                        (Inr (), console_log (''No commits found for coordinates '' @ coordText x y
                                              @ '' on '' @ target) s2)
                    | Some first \<Rightarrow>
                       (let s3 = console_log (''Found '' @ toStr (int (length matching))
                                              @ '' commit(s) on this date.'') s2;
                            s4 = console_log ''Will remove ONLY the first one:'' s3;
                            s5 = console_log (listCommit first) s4;
                            s6 = (if length matching > 1
                                  then console_log (''Note: '' @ toStr (int (length matching) - 1)
                                         @ '' other commit(s) will remain on this date.'') s5
                                  else s5)
                        in if \<not> force
                           then (Inr (), console_log ''Use force=true to proceed with removal'' s6)
                           else (case removeSingleCommitByHash w (hash first) s6 of
                                   (Inl e, s7) \<Rightarrow> (Inl e, s7)
                                 | (Inr _, s7) \<Rightarrow>
                                     (Inr (), console_log (''Successfully removed 1 commit for coordinates ''
                                                           @ coordText x y) s7))))))"

text \<open>
  The function returns nothing in every branch (\<open>Undefined\<close>); its \<^verbatim>\<open>catch\<close> prints the
  message and swallows the error.
\<close>

definition removeSingleCommitByCoordinates ::
    "world \<Rightarrow> int \<Rightarrow> int \<Rightarrow> bool \<Rightarrow> state \<Rightarrow> ret \<times> state" where
  "removeSingleCommitByCoordinates w x y force s =
     (case removeSingleCommitByCoordinates_try w x y force s of
        (Inl e, s1) \<Rightarrow> (Undefined, console_error (''Error removing commit: '' @ e) s1)
      | (Inr _, s1) \<Rightarrow> (Undefined, s1))"

section \<open>Searching the coordinates of a date\<close>

text \<open>
  \<open>findCoordinatesForDate\<close> (lines 308-330) tries \<open>x\<close> from 0 to 54 and, for each, \<open>y\<close>
  from 0 to 6, and returns the first pair whose date formats to the string it is given;
  \<open>None\<close> is its \<^verbatim>\<open>null\<close>. It only reads the clock, in the local time zone, and prints;
  the printing is left out.
\<close>

function find_y ::
    "(moment \<Rightarrow> moment) \<Rightarrow> moment \<Rightarrow> string \<Rightarrow> int \<Rightarrow> int \<Rightarrow> (int \<times> int) option" where
  "find_y tz now t x y =
     (if y \<le> 6
      then (if targetDateStr tz now x y = t then Some (x, y) else find_y tz now t x (y + 1))
      else None)"
  by pat_completeness auto
termination
  by (relation "measure (\<lambda>(tz, now, t, x, y). nat (7 - y))") auto

function find_x ::
    "(moment \<Rightarrow> moment) \<Rightarrow> moment \<Rightarrow> string \<Rightarrow> int \<Rightarrow> (int \<times> int) option" where
  "find_x tz now t x =
     (if x \<le> 54
      then (case find_y tz now t x 0 of Some r \<Rightarrow> Some r | None \<Rightarrow> find_x tz now t (x + 1))
      else None)"
  by pat_completeness auto
termination
  by (relation "measure (\<lambda>(tz, now, t, x). nat (55 - x))") auto

declare find_y.simps [simp del] find_x.simps [simp del]


section \<open>The advanced script\<close>

text \<open>
  \<^verbatim>\<open>removeCommitAdvanced.js\<close>. Its console lines are decoration and are left out of the
  model; every git call, every question and every exception is kept. An option the caller
  leaves out is \<open>None\<close> and takes the default of the destructuring
  \<^verbatim>\<open>{ force = false, interactive = true, dryRun = false, backup = true }\<close>.
\<close>

record options =
  opt_force :: "bool option"
  opt_interactive :: "bool option"
  opt_dryRun :: "bool option"
  opt_backup :: "bool option"

definition orDefault :: "bool option \<Rightarrow> bool \<Rightarrow> bool" where
  "orDefault v d = (case v of None \<Rightarrow> d | Some b \<Rightarrow> b)"

definition toLowerCase :: "string \<Rightarrow> string" where
  "toLowerCase s =
     map (\<lambda>c. let n = (of_char c :: nat) in if 65 \<le> n \<and> n \<le> 90 then char_of (n + 32) else c) s"

text \<open>
  \<open>askConfirmation\<close> (lines 20-26) asks on the readline interface of the module; asking on
  an interface that was closed throws.
\<close>

definition askConfirmation :: "world \<Rightarrow> state \<Rightarrow> (string + bool) \<times> state" where
  "askConfirmation w s =
     (if closed s then (Inl ''readline was closed'', s)
      else (let answer = answers w (questions s)
            in (Inr (toLowerCase answer = ''y'' \<or> toLowerCase answer = ''yes''),
                s\<lparr>questions := questions s + 1\<rparr>)))"

text \<open>\<open>removeCommitsUsingRebase\<close> (lines 182-194): each rebase has its own \<^verbatim>\<open>try\<close>.\<close>

fun removeCommitsUsingRebase :: "world \<Rightarrow> commit list \<Rightarrow> state \<Rightarrow> state" where
  "removeCommitsUsingRebase w [] s = s"
| "removeCommitsUsingRebase w (commit # rest) s =
     (case git w (RawRebaseOnto (hash commit)) s of
        (Some e, s1) \<Rightarrow> removeCommitsUsingRebase w rest s1
      | (None, s1) \<Rightarrow> removeCommitsUsingRebase w rest s1)"

text \<open>
  \<open>removeCommitsUsingFilter\<close> (lines 137-176): the push has its own \<^verbatim>\<open>try\<close>, so only the
  filter-branch call reaches the outer \<^verbatim>\<open>catch\<close>, which falls back to the rebase method.
\<close>

definition removeCommitsUsingFilter :: "world \<Rightarrow> commit list \<Rightarrow> string \<Rightarrow> state \<Rightarrow> state" where
  "removeCommitsUsingFilter w commits target s =
     (let commitHashes = map hash commits in
      case git w (RawFilterBranch commitHashes) s of
        (Some e, s1) \<Rightarrow> removeCommitsUsingRebase w commits s1
      | (None, s1) \<Rightarrow>
          (case git w (Push [''-f'', ''origin'', ''main'']) s1 of
             (Some pushError, s2) \<Rightarrow> s2
           | (None, s2) \<Rightarrow> s2))"

text \<open>
  \<open>cleanupBackupBranch\<close> (lines 199-216): all but the last five backup branches are
  deleted; the first call that throws ends the clean-up, and nothing is rethrown.
\<close>

fun deleteBranches :: "world \<Rightarrow> string list \<Rightarrow> state \<Rightarrow> state" where
  "deleteBranches w [] s = s"
| "deleteBranches w (branch # rest) s =
     (case git w (DeleteLocalBranch branch) s of
        (Some e, s1) \<Rightarrow> s1
      | (None, s1) \<Rightarrow> deleteBranches w rest s1)"

definition cleanupBackupBranch :: "world \<Rightarrow> state \<Rightarrow> state" where
  "cleanupBackupBranch w s =
     (case git w BranchLocal s of
        (Some e, s1) \<Rightarrow> s1
      | (None, s1) \<Rightarrow>
          (let backupBranches =
                 filter (\<lambda>branch. str_includes branch ''backup-before-removal'')
                   (branchesAll w (calls s))
           in if length backupBranches > 5
              then (let oldBranches = take (length backupBranches - 5) backupBranches
                    in deleteBranches w oldBranches s1)
              else s1))"

text \<open>The backup step (lines 52-57) and the list of candidates (lines 71-81).\<close>

definition createBackup :: "world \<Rightarrow> state \<Rightarrow> (string + unit) \<times> state" where
  "createBackup w s =
     (let backupBranchName = ''backup-before-removal-'' @ decimal (dateNow w) in
      case git w (CheckoutLocalBranch backupBranchName) s of
        (Some e, s1) \<Rightarrow> (Inl e, s1)
      | (None, s1) \<Rightarrow>
          (case git w (Checkout ''main'') s1 of
             (Some e, s2) \<Rightarrow> (Inl e, s2)
           | (None, s2) \<Rightarrow> (Inr (), s2)))"

definition logEntries :: "log_result \<Rightarrow> commit list" where
  "logEntries log = (case log_latest log of Some latest \<Rightarrow> latest # log_all log | None \<Rightarrow> log_all log)"

definition matchingEntries :: "commit list \<Rightarrow> string \<Rightarrow> commit list" where
  "matchingEntries entries target =
     filter (\<lambda>commit. date commit \<noteq> [] \<and> str_includes (date commit) target) entries"

definition afterBackup ::
    "world \<Rightarrow> int \<Rightarrow> int \<Rightarrow> bool \<Rightarrow> bool \<Rightarrow> bool \<Rightarrow> bool \<Rightarrow> state \<Rightarrow> (string + ret) \<times> state" where
  "afterBackup w x y force interactive dryRun backup s =
     (let target = targetDateStr (localTime w) (clock w) x y in
      case git w (Log [''--all'', ''--pretty=format:%H|%s|%ad'', ''--date=short'']) s of
        (Some e, s1) \<Rightarrow> (Inl e, s1)
      | (None, s1) \<Rightarrow>
         (let matching = matchingEntries (logEntries (logResult w (calls s))) target in
          if length matching = 0
          then (Inr Undefined, if backup then cleanupBackupBranch w s1 else s1)
          else if dryRun then (Inr (Commits matching), s1)
          else
           (case (if interactive \<and> \<not> force then askConfirmation w s1 else (Inr True, s1)) of
              (Inl e, s2) \<Rightarrow> (Inl e, s2)
            | (Inr confirmed, s2) \<Rightarrow>
                if \<not> confirmed
                then (Inr Undefined, if backup then cleanupBackupBranch w s2 else s2)
                else (Inr Undefined, removeCommitsUsingFilter w matching target s2))))"

definition removeCommitByCoordinatesAdvanced_try ::
    "world \<Rightarrow> int \<Rightarrow> int \<Rightarrow> options \<Rightarrow> state \<Rightarrow> (string + ret) \<times> state" where
  "removeCommitByCoordinatesAdvanced_try w x y opts s =
     (let force = orDefault (opt_force opts) False;
          interactive = orDefault (opt_interactive opts) True;
          dryRun = orDefault (opt_dryRun opts) False;
          backup = orDefault (opt_backup opts) True
      in case validateCoordinates x y of
           Inl e \<Rightarrow> (Inl e, s)
         | Inr _ \<Rightarrow>
            (case (if backup \<and> \<not> dryRun then createBackup w s else (Inr (), s)) of
               (Inl e, s1) \<Rightarrow> (Inl e, s1)
             | (Inr _, s1) \<Rightarrow> afterBackup w x y force interactive dryRun backup s1))"

text \<open>
  \<open>removeCommitByCoordinates\<close> of the advanced script (lines 34-130): the \<^verbatim>\<open>catch\<close>
  rethrows and the \<^verbatim>\<open>finally\<close> closes the readline interface.
\<close>

definition removeCommitByCoordinatesAdvanced ::
    "world \<Rightarrow> int \<Rightarrow> int \<Rightarrow> options \<Rightarrow> state \<Rightarrow> (string + ret) \<times> state" where
  "removeCommitByCoordinatesAdvanced w x y opts s =
     (case removeCommitByCoordinatesAdvanced_try w x y opts s of
        (r, s1) \<Rightarrow> (r, s1\<lparr>closed := True\<rparr>))"

text \<open>
  \<open>removeCommitPattern\<close> (lines 223-239) calls it for each coordinate with
  \<^verbatim>\<open>{ ...options, interactive: false, backup: false }\<close>; an exception ends the loop.
\<close>

fun removeCommitPattern ::
    "world \<Rightarrow> (int \<times> int) list \<Rightarrow> options \<Rightarrow> state \<Rightarrow> (string + unit) \<times> state" where
  "removeCommitPattern w [] opts s = (Inr (), s)"
| "removeCommitPattern w ((x, y) # rest) opts s =
     (case removeCommitByCoordinatesAdvanced w x y
             (opts\<lparr>opt_interactive := Some False, opt_backup := Some False\<rparr>) s of
        (Inl e, s1) \<Rightarrow> (Inl e, s1)
      | (Inr _, s1) \<Rightarrow> removeCommitPattern w rest opts s1)"

section \<open>Concrete inputs\<close>

text \<open>The reference instant of the specification's scenario, a world and the initial state.\<close>

definition ref_2025_01_15 :: moment where
  "ref_2025_01_15 = \<lparr>m_year = 2025, m_month = 1, m_date = 15, m_time = 0\<rparr>"

text \<open>Two clocks a year after the day that Pacific/Apia skipped.\<close>

definition clock_2012_12_28 :: moment where
  "clock_2012_12_28 = \<lparr>m_year = 2012, m_month = 12, m_date = 28, m_time = 36000000\<rparr>"

definition clock_2012_12_29 :: moment where
  "clock_2012_12_29 = \<lparr>m_year = 2012, m_month = 12, m_date = 29, m_time = 36000000\<rparr>"

definition s0 :: state where
  "s0 = \<lparr>calls = [], console = [], questions = 0, closed = False\<rparr>"

definition commit_a :: commit where
  "commit_a = \<lparr>hash = ''aaaaaaaa1'', message = ''first'', date = ''2024-01-16T10:00''\<rparr>"

definition commit_b :: commit where
  "commit_b = \<lparr>hash = ''bbbbbbbb2'', message = ''second'', date = ''2024-01-16T18:00''\<rparr>"

definition commit_c :: commit where
  "commit_c = \<lparr>hash = ''cccccccc3'', message = ''third'', date = ''2024-01-17T00:00''\<rparr>"

definition parse0 :: "string \<Rightarrow> moment option" where
  "parse0 d =
     (if d = ''2024-01-16T10:00'' then Some \<lparr>m_year = 2024, m_month = 1, m_date = 16, m_time = 36000000\<rparr>
      else if d = ''2024-01-16T18:00'' then Some \<lparr>m_year = 2024, m_month = 1, m_date = 16, m_time = 64800000\<rparr>
      else if d = ''2024-01-17T00:00'' then Some \<lparr>m_year = 2024, m_month = 1, m_date = 17, m_time = 0\<rparr>
      else None)"

text \<open>
  A world whose clock shows 2025-01-15 in a zone that skips nothing, whose log is the three commits of the
  specification's scenario, where no git call throws, and where the user answers no.
\<close>

definition w0 :: world where
  "w0 = \<lparr>clock = ref_2025_01_15, localTime = utc, dateNow = 1736899200000, parseDate = parse0,
          gitError = (\<lambda>_ _. None),
          logResult = (\<lambda>_. \<lparr>log_all = [commit_a, commit_b, commit_c], log_latest = Some commit_a\<rparr>),
          branchesAll = (\<lambda>_. [''main'']), answers = (\<lambda>_. ''n'')\<rparr>"

definition commit_d :: commit where
  "commit_d = \<lparr>hash = ''dddddddd4'', message = ''fourth'', date = ''2024-01-16T18:00''\<rparr>"

text \<open>The same world with three commits on 2024-01-16.\<close>

definition w3 :: world where
  "w3 = w0\<lparr>logResult := (\<lambda>_. \<lparr>log_all = [commit_a, commit_b, commit_d], log_latest = Some commit_a\<rparr>)\<rparr>"

text \<open>A world where filter-branch and the first rebase throw.\<close>

definition w_fail :: world where
  "w_fail = w0\<lparr>gitError := (\<lambda>done c.
       case c of RawFilterBranch _ \<Rightarrow> Some ''filter-branch failed''
               | RawRebaseOnto h \<Rightarrow> if h = ''aaaaaaaa1'' then Some ''rebase failed'' else None
               | _ \<Rightarrow> None)\<rparr>"

text \<open>A world with an empty log and seven backup branches left by earlier runs.\<close>

definition w_backups :: world where
  "w_backups = w0\<lparr>logResult := (\<lambda>_. \<lparr>log_all = [], log_latest = None\<rparr>),
       branchesAll := (\<lambda>_. [''backup-before-removal-1'', ''backup-before-removal-2'',
                               ''backup-before-removal-3'', ''backup-before-removal-4'',
                               ''backup-before-removal-5'', ''backup-before-removal-6'',
                               ''backup-before-removal-7'', ''main''])\<rparr>"

definition defaults :: options where
  "defaults = \<lparr>opt_force = None, opt_interactive = None, opt_dryRun = None, opt_backup = None\<rparr>"

section \<open>Kinds of git call\<close>

text \<open>The calls that remove commits, and the calls that touch branches.\<close>

definition removalCall :: "git_call \<Rightarrow> bool" where
  "removalCall c =
     (case c of RawFilterBranch _ \<Rightarrow> True | RawRebaseOnto _ \<Rightarrow> True | Push _ \<Rightarrow> True
              | _ \<Rightarrow> False)"

definition branchCall :: "git_call \<Rightarrow> bool" where
  "branchCall c =
     (case c of CheckoutLocalBranch _ \<Rightarrow> True | Checkout _ \<Rightarrow> True
              | DeleteLocalBranch _ \<Rightarrow> True | BranchLocal \<Rightarrow> True | _ \<Rightarrow> False)"

text \<open>\<open>adds_no P s s'\<close>: the calls of \<open>s'\<close> are those of \<open>s\<close> followed by calls none of which is a \<open>P\<close>.\<close>

definition adds_no :: "(git_call \<Rightarrow> bool) \<Rightarrow> state \<Rightarrow> state \<Rightarrow> bool" where
  "adds_no P s s' = (\<exists>new. calls s' = calls s @ new \<and> filter P new = [])"

text \<open>The mutating calls other than the deletion of a branch.\<close>

definition createsOrRemoves :: "git_call \<Rightarrow> bool" where
  "createsOrRemoves c = (mutating c \<and> (case c of DeleteLocalBranch _ \<Rightarrow> False | _ \<Rightarrow> True))"
section \<open>Properties of the calendar arithmetic\<close>

subsection \<open>Formatting is injective\<close>

lemma digit_char_code: "n < 10 \<Longrightarrow> of_char (digit_char n) = 48 + n"
proof -
  assume "n < 10"
  then have "n \<in> set [0..<10]" by simp
  then show ?thesis
    unfolding digit_char_def by (simp add: upt_rec) (elim disjE; simp)
qed

lemma digit_char_not_dash: "n < 10 \<Longrightarrow> not_dash (digit_char n)"
proof -
  assume "n < 10"
  then have "of_char (digit_char n) = 48 + n" by (rule digit_char_code)
  then have "of_char (digit_char n) \<noteq> (45::nat)" by simp
  then show ?thesis unfolding not_dash_def by auto
qed

lemma dec_val_snoc: "dec_val (s @ [c]) = 10 * dec_val s + (of_char c - 48)"
  by (simp add: dec_val_def)

lemma dec_val_single: "dec_val [c] = of_char c - 48"
  by (simp add: dec_val_def)

lemma dec_val_decimal: "dec_val (decimal n) = n"
proof (induction n rule: decimal.induct)
  case (1 n)
  show ?case
  proof (cases "n < 10")
    case True
    then show ?thesis
      by (simp add: decimal.simps [of n] dec_val_single digit_char_code)
  next
    case False
    have "n mod 10 < 10" by simp
    then have d: "of_char (digit_char (n mod 10)) = 48 + n mod 10" by (rule digit_char_code)
    from False 1 have "dec_val (decimal (n div 10)) = n div 10" by simp
    with False d show ?thesis
      by (simp add: decimal.simps [of n] dec_val_snoc)
  qed
qed

lemma decimal_not_dash: "c \<in> set (decimal n) \<Longrightarrow> not_dash c"
proof (induction n rule: decimal.induct)
  case (1 n)
  show ?case
  proof (cases "n < 10")
    case True
    with 1(2) show ?thesis
      by (simp add: decimal.simps [of n] digit_char_not_dash)
  next
    case False
    have "not_dash (digit_char (n mod 10))" by (rule digit_char_not_dash) simp
    with False 1 show ?thesis
      by (auto simp add: decimal.simps [of n])
  qed
qed

lemma decimal_nonempty: "decimal n \<noteq> []"
  by (simp add: decimal.simps [of n])

lemma dec_val_zeros: "dec_val (replicate k (CHR ''0'') @ s) = dec_val s"
  by (induction k) (simp_all add: dec_val_def)

lemma zeroFill_nat: "zeroFill (int n) k = replicate (k - length (decimal n)) (CHR ''0'') @ decimal n"
  by (simp add: zeroFill_def Let_def)

lemma not_dash_zero: "not_dash (CHR ''0'')"
  by (simp add: not_dash_def)

lemma zeroFill_nat_not_dash: "c \<in> set (zeroFill (int n) k) \<Longrightarrow> not_dash c"
  by (auto simp add: zeroFill_nat not_dash_zero dest: decimal_not_dash)

lemma dec_val_zeroFill: "dec_val (zeroFill (int n) k) = n"
  by (simp add: zeroFill_nat dec_val_zeros dec_val_decimal)

lemma int_val_zeroFill: "int_val (zeroFill y k) = y"
proof (cases "0 \<le> y")
  case True
  then obtain n where y: "y = int n" using nonneg_int_cases by blast
  have ne: "zeroFill (int n) k \<noteq> []"
    by (simp add: zeroFill_nat decimal_nonempty)
  then obtain c cs where s: "zeroFill (int n) k = c # cs" by (cases "zeroFill (int n) k") auto
  then have "not_dash c" using zeroFill_nat_not_dash [of c n k] by simp
  then have "c \<noteq> CHR ''-''" by (simp add: not_dash_def)
  then have "int_val (zeroFill (int n) k) = int (dec_val (zeroFill (int n) k))"
    using s by (simp add: int_val_def)
  then show ?thesis using y by (simp add: dec_val_zeroFill)
next
  case False
  then have "zeroFill y k = CHR ''-'' # replicate (k - length (decimal (nat \<bar>y\<bar>))) (CHR ''0'') @ decimal (nat \<bar>y\<bar>)"
    by (simp add: zeroFill_def Let_def)
  then have "int_val (zeroFill y k) = - int (nat \<bar>y\<bar>)"
    by (simp add: int_val_def dec_val_zeros dec_val_decimal)
  with False show ?thesis by simp
qed

lemma takeWhile_sep:
  "(\<And>c. c \<in> set xs \<Longrightarrow> not_dash c) \<Longrightarrow> takeWhile not_dash (rev xs @ CHR ''-'' # ys) = rev xs"
proof -
  assume a: "\<And>c. c \<in> set xs \<Longrightarrow> not_dash c"
  have "takeWhile not_dash (rev xs @ CHR ''-'' # ys) = rev xs @ takeWhile not_dash (CHR ''-'' # ys)"
    by (rule takeWhile_append2) (simp add: a)
  then show ?thesis by (simp add: not_dash_def)
qed

lemma dropWhile_sep:
  "(\<And>c. c \<in> set xs \<Longrightarrow> not_dash c) \<Longrightarrow> dropWhile not_dash (rev xs @ CHR ''-'' # ys) = CHR ''-'' # ys"
proof -
  assume a: "\<And>c. c \<in> set xs \<Longrightarrow> not_dash c"
  have "dropWhile not_dash (rev xs @ CHR ''-'' # ys) = dropWhile not_dash (CHR ''-'' # ys)"
    by (rule dropWhile_append2) (simp add: a)
  then show ?thesis by (simp add: not_dash_def)
qed

lemma parse_format: "parse_YMD (format_YMD m) = (m_year m, m_month m, m_date m)"
proof -
  let ?Y = "zeroFill (m_year m) 4"
  let ?M = "zeroFill (int (m_month m)) 2"
  let ?D = "zeroFill (int (m_date m)) 2"
  have r: "rev (format_YMD m) = rev ?D @ CHR ''-'' # (rev ?M @ CHR ''-'' # rev ?Y)"
    by (simp add: format_YMD_def)
  have d1: "takeWhile not_dash (rev (format_YMD m)) = rev ?D"
    unfolding r by (rule takeWhile_sep) (rule zeroFill_nat_not_dash)
  have d2: "dropWhile not_dash (rev (format_YMD m)) = CHR ''-'' # (rev ?M @ CHR ''-'' # rev ?Y)"
    unfolding r by (rule dropWhile_sep) (rule zeroFill_nat_not_dash)
  have m1: "takeWhile not_dash (rev ?M @ CHR ''-'' # rev ?Y) = rev ?M"
    by (rule takeWhile_sep) (rule zeroFill_nat_not_dash)
  have m2: "dropWhile not_dash (rev ?M @ CHR ''-'' # rev ?Y) = CHR ''-'' # rev ?Y"
    by (rule dropWhile_sep) (rule zeroFill_nat_not_dash)
  show ?thesis
    unfolding parse_YMD_def Let_def d1 d2 list.sel m1 m2
    by (simp add: int_val_zeroFill dec_val_zeroFill)
qed

lemma format_YMD_inj:
  "format_YMD a = format_YMD b \<Longrightarrow>
     m_year a = m_year b \<and> m_month a = m_month b \<and> m_date a = m_date b"
proof -
  assume "format_YMD a = format_YMD b"
  then have "parse_YMD (format_YMD a) = parse_YMD (format_YMD b)" by simp
  then show ?thesis by (simp add: parse_format)
qed

subsection \<open>Stepping through the calendar\<close>












lemma nextDay_time: "nextDay (m\<lparr>m_time := t\<rparr>) = (nextDay m)\<lparr>m_time := t\<rparr>"
  by (simp add: nextDay_def)

lemma funpow_nextDay_time: "(nextDay ^^ n) (m\<lparr>m_time := t\<rparr>) = ((nextDay ^^ n) m)\<lparr>m_time := t\<rparr>"
  by (induction n) (simp_all add: nextDay_time)

lemma subtractYear_time: "civilSubtractYear (m\<lparr>m_time := t\<rparr>) = (civilSubtractYear m)\<lparr>m_time := t\<rparr>"
  by (simp add: civilSubtractYear_def)

lemma format_YMD_time: "format_YMD (m\<lparr>m_time := t\<rparr>) = format_YMD m"
  by (simp add: format_YMD_def)

section \<open>Resolution of coordinates\<close>


text \<open>Evaluating a sum of days one step at a time.\<close>

lemma addDays_rec:
  "civilAddDays m n = (if n = 0 then m else if 0 < n then civilAddDays (nextDay m) (n - 1)
                  else civilAddDays (prevDay m) (n + 1))"
proof -
  have p: "civilAddDays m n = civilAddDays (nextDay m) (n - 1)" if "0 < n"
  proof -
    from that have "nat n = Suc (nat (n - 1))" by simp
    then have "(nextDay ^^ nat n) m = (nextDay ^^ nat (n - 1)) (nextDay m)"
      by (simp add: funpow_swap1)
    with that show ?thesis by (simp add: civilAddDays_def)
  qed
  have q: "civilAddDays m n = civilAddDays (prevDay m) (n + 1)" if "n < 0"
  proof -
    from that have "nat (- n) = Suc (nat (- (n + 1)))" by simp
    then have "(prevDay ^^ nat (- n)) m = (prevDay ^^ nat (- (n + 1))) (prevDay m)"
      by (simp add: funpow_swap1)
    with that show ?thesis by (simp add: civilAddDays_def)
  qed
  show ?thesis using p q by (cases "n = 0") (auto simp add: civilAddDays_def)
qed

lemmas civil_eval = addDays_rec civilSubtractYear_def nextDay_def daysInMonth_def isLeapYear_def

lemmas resolve_eval = resolve_def validateCoordinates_def targetDateStr_def targetDate_def
  addWeeks_def addDays_def subtractYear_def utc_def apia_def civil_eval ref_2025_01_15_def
  clock_2012_12_28_def clock_2012_12_29_def format_YMD_def zeroFill_def decimal.simps
  digit_char_def Let_def

lemma scenario_0_0: "resolve utc ref_2025_01_15 0 0 = Inr ''2024-01-16''"
  by (simp add: resolve_eval)

lemma scenario_1_2: "resolve utc ref_2025_01_15 1 2 = Inr ''2024-01-25''"
  by (simp add: resolve_eval)




text \<open>
  C5: a week outside 0..54 or a day outside 0..6 makes the resolution throw an error whose
  message names the axis (the week first when both are wrong), in every script, with the
  state as it was: no git call and no console line precede the throw, and neither the
  clock nor the repository is consulted. The basic scripts then print the message.
\<close>

theorem out_of_range_rejected:
  "x < 0 \<or> x > 54 \<or> y < 0 \<or> y > 6 \<Longrightarrow>
     (let msg = (if x < 0 \<or> x > 54 then ''X coordinate must be between 0 and 54 (weeks)''
                 else ''Y coordinate must be between 0 and 6 (days)'')
      in resolve tz now x y = Inl msg \<and>
         removeCommitByCoordinates_try w x y force s = (Inl msg, s) \<and>
         removeCommitByCoordinates w x y force s
           = console_error (''Error removing commits: '' @ msg) s \<and>
         removeSingleCommitByCoordinates_try w x y force s = (Inl msg, s) \<and>
         removeCommitByCoordinatesAdvanced_try w x y opts s = (Inl msg, s))"
  by (auto simp add: resolve_def validateCoordinates_def removeCommitByCoordinates_try_def
      removeCommitByCoordinates_def removeSingleCommitByCoordinates_try_def
      removeCommitByCoordinatesAdvanced_try_def Let_def)

theorem out_of_range_rejected_witness:
  "resolve utc ref_2025_01_15 55 0 = Inl ''X coordinate must be between 0 and 54 (weeks)'' \<and>
   resolve utc ref_2025_01_15 0 7 = Inl ''Y coordinate must be between 0 and 6 (days)'' \<and>
   resolve utc ref_2025_01_15 (- 1) 0 = Inl ''X coordinate must be between 0 and 54 (weeks)'' \<and>
   resolve utc ref_2025_01_15 0 (- 1) = Inl ''Y coordinate must be between 0 and 6 (days)'' \<and>
   removeCommitByCoordinates_try w0 55 7 True s0
     = (Inl ''X coordinate must be between 0 and 54 (weeks)'', s0)"
  using out_of_range_rejected [of 55 0 utc ref_2025_01_15 w0 True s0]
    out_of_range_rejected [of 0 7 utc ref_2025_01_15 w0 True s0]
    out_of_range_rejected [of "- 1" 0 utc ref_2025_01_15 w0 True s0]
    out_of_range_rejected [of 0 "- 1" utc ref_2025_01_15 w0 True s0]
    out_of_range_rejected [of 55 7 utc ref_2025_01_15 w0 True s0]
  by (simp add: Let_def)

section \<open>Selection\<close>

lemma dash_in_format: "CHR ''-'' \<in> set (format_YMD d)"
  by (simp add: format_YMD_def)

lemma format_not_invalid: "format_YMD d \<noteq> ''Invalid date''"
proof
  assume "format_YMD d = ''Invalid date''"
  then have "CHR ''-'' \<in> set ''Invalid date''" using dash_in_format [of d] by simp
  then show False by simp
qed

lemma format_same_day: "format_YMD m = format_YMD d \<longleftrightarrow> same_day m d"
proof
  assume "format_YMD m = format_YMD d"
  then show "same_day m d" unfolding same_day_def by (rule format_YMD_inj)
next
  assume "same_day m d"
  then show "format_YMD m = format_YMD d" by (simp add: same_day_def format_YMD_def)
qed

lemma formatDate_on_day:
  "(formatDate (parseDate w (date c)) = format_YMD d) = on_day w d c"
  by (cases "parseDate w (date c)")
     (simp_all add: formatDate_def on_day_def format_same_day format_not_invalid [symmetric])

text \<open>
  C6: the selection is exactly the commits whose timestamp falls on the target date, the
  time of day ignored, in the order of the log. A commit whose date does not parse is
  never selected.
\<close>

theorem selection_by_date:
  "matchingCommits w commits (format_YMD d) = filter (on_day w d) commits \<and>
   subseq (matchingCommits w commits (format_YMD d)) commits"
proof -
  have "matchingCommits w commits (format_YMD d) = filter (on_day w d) commits"
    unfolding matchingCommits_def by (simp add: formatDate_on_day)
  then show ?thesis by simp
qed

theorem selection_by_date_witness:
  "matchingCommits w0 [commit_a, commit_b, commit_c]
     (format_YMD \<lparr>m_year = 2024, m_month = 1, m_date = 16, m_time = 0\<rparr>) = [commit_a, commit_b]"
  using selection_by_date
    [of w0 "[commit_a, commit_b, commit_c]" "\<lparr>m_year = 2024, m_month = 1, m_date = 16, m_time = 0\<rparr>"]
  by (simp add: on_day_def same_day_def w0_def commit_a_def commit_b_def commit_c_def parse0_def)

lemma matching_scenario:
  "matchingCommits w0 [commit_a, commit_b, commit_c] ''2024-01-16'' = [commit_a, commit_b]"
  by (simp add: matchingCommits_def w0_def commit_a_def commit_b_def commit_c_def parse0_def
      formatDate_def format_YMD_def zeroFill_def decimal.simps digit_char_def Let_def)

text \<open>
  C7: when more than one commit matches, the single-commit script takes exactly one
  record, the first of the full selection.
\<close>

theorem select_first:
  "1 < length (matchingCommits w commits target) \<Longrightarrow>
     (\<exists>c. commitToRemove (matchingCommits w commits target) = Some c \<and>
          [c] = take 1 (matchingCommits w commits target) \<and>
          c = hd (matchingCommits w commits target))"
  by (cases "matchingCommits w commits target") (simp_all add: commitToRemove_def)

theorem select_first_witness:
  "commitToRemove (matchingCommits w0 [commit_a, commit_b, commit_c] ''2024-01-16'') = Some commit_a"
  using select_first [of w0 "[commit_a, commit_b, commit_c]" "''2024-01-16''"]
  by (simp add: matching_scenario)

section \<open>Searching inverts resolving\<close>













section \<open>Calls issued by the removal strategies\<close>

lemma console_log_fields [simp]:
  "calls (console_log m s) = calls s"
  "console (console_log m s) = console s @ [Out m]"
  "questions (console_log m s) = questions s"
  "closed (console_log m s) = closed s"
  by (simp_all add: console_log_def)

lemma console_error_fields [simp]:
  "calls (console_error m s) = calls s"
  "console (console_error m s) = console s @ [Err m]"
  "questions (console_error m s) = questions s"
  "closed (console_error m s) = closed s"
  by (simp_all add: console_error_def)

lemma git_fields [simp]:
  "fst (git w c s) = gitError w (calls s) c"
  "calls (snd (git w c s)) = calls s @ [c]"
  "console (snd (git w c s)) = console s"
  "questions (snd (git w c s)) = questions s"
  "closed (snd (git w c s)) = closed s"
  by (simp_all add: git_def)

lemma rebase_calls:
  "calls (removeCommitsUsingRebase w commits s)
     = calls s @ map (\<lambda>commit. RawRebaseOnto (hash commit)) commits"
proof (induction commits arbitrary: s)
  case Nil
  show ?case by simp
next
  case (Cons c cs)
  show ?case
    by (cases "gitError w (calls s) (RawRebaseOnto (hash c))")
       (simp_all add: git_def Cons.IH)
qed

lemma rebase_other_fields:
  "questions (removeCommitsUsingRebase w commits s) = questions s \<and>
   closed (removeCommitsUsingRebase w commits s) = closed s \<and>
   console (removeCommitsUsingRebase w commits s) = console s"
proof (induction commits arbitrary: s)
  case Nil
  show ?case by simp
next
  case (Cons c cs)
  show ?case
    by (cases "gitError w (calls s) (RawRebaseOnto (hash c))")
       (simp_all add: git_def Cons.IH)
qed

text \<open>
  C4: when the filter-branch call throws, the rebase method runs on the same batch, and
  the rebase method issues one rebase for every commit of the batch, in order, whichever
  of them throw.
\<close>

theorem filter_falls_back_to_rebase:
  "(gitError w (calls s) (RawFilterBranch (map hash commits)) = Some e \<longrightarrow>
      calls (removeCommitsUsingFilter w commits target s)
        = calls s @ RawFilterBranch (map hash commits)
            # map (\<lambda>commit. RawRebaseOnto (hash commit)) commits) \<and>
   calls (removeCommitsUsingRebase w commits s)
     = calls s @ map (\<lambda>commit. RawRebaseOnto (hash commit)) commits"
  by (simp add: removeCommitsUsingFilter_def git_def rebase_calls)

theorem filter_falls_back_to_rebase_witness:
  "gitError w_fail [] (RawFilterBranch [''aaaaaaaa1'', ''bbbbbbbb2'']) = Some ''filter-branch failed'' \<and>
   gitError w_fail [RawFilterBranch [''aaaaaaaa1'', ''bbbbbbbb2'']] (RawRebaseOnto ''aaaaaaaa1'')
     = Some ''rebase failed'' \<and>
   calls (removeCommitsUsingFilter w_fail [commit_a, commit_b] ''2024-01-16'' s0)
     = [RawFilterBranch [''aaaaaaaa1'', ''bbbbbbbb2''], RawRebaseOnto ''aaaaaaaa1'',
        RawRebaseOnto ''bbbbbbbb2'']"
  using filter_falls_back_to_rebase [of w_fail s0 "[commit_a, commit_b]" "''filter-branch failed''" "''2024-01-16''"]
  by (simp add: w_fail_def w0_def s0_def commit_a_def commit_b_def)

section \<open>The single-commit script on three matches\<close>

lemma removeSingleCommitByHash_calls:
  "calls (snd (removeSingleCommitByHash w h s)) = calls s @ [RawRebaseOnto h]"
  by (cases "gitError w (calls s) (RawRebaseOnto h)")
     (simp_all add: removeSingleCommitByHash_def git_def Let_def)

lemma removeSingleCommitByHash_console:
  "\<exists>more. console (snd (removeSingleCommitByHash w h s)) = console s @ more"
  by (cases "gitError w (calls s) (RawRebaseOnto h)")
     (simp_all add: removeSingleCommitByHash_def git_def Let_def)

lemma toStr_2: "toStr 2 = ''2''"
  by (simp add: toStr_def decimal.simps digit_char_def)

text \<open>
  C8 (as amended): when three commits match, the single-commit script returns nothing,
  issues the log call and, when forced, exactly one rebase, for the first commit of the
  selection, and no call for the other two, whose number it prints in a note.
\<close>

theorem single_removal_of_three:
  assumes x: "0 \<le> x" "x \<le> 54" and y: "0 \<le> y" "y \<le> 6"
    and log: "gitError w (calls s) (Log []) = None"
    and three: "matchingCommits w (log_all (logResult w (calls s))) (targetDateStr (localTime w) (clock w) x y)
                  = [c1, c2, c3]"
  shows "fst (removeSingleCommitByCoordinates w x y force s) = Undefined \<and>
         calls (snd (removeSingleCommitByCoordinates w x y force s))
           = calls s @ Log [] # (if force then [RawRebaseOnto (hash c1)] else []) \<and>
         Out ''Note: 2 other commit(s) will remain on this date.''
           \<in> set (console (snd (removeSingleCommitByCoordinates w x y force s)))"
proof -
  let ?s1 = "console_log (''Looking for commits on '' @ targetDateStr (localTime w) (clock w) x y @ '' (''
               @ coordText x y @ '')'') s"
  have v: "validateCoordinates x y = Inr ()"
    using x y by (simp add: validateCoordinates_def)
  have g: "git w (Log []) ?s1 = (None, ?s1\<lparr>calls := calls s @ [Log []]\<rparr>)"
    using log by (simp add: git_def)
  show ?thesis
  proof (cases force)
    case False
    then show ?thesis
      using v g three
      by (simp add: removeSingleCommitByCoordinates_def removeSingleCommitByCoordinates_try_def
          Let_def commitToRemove_def toStr_2)
  next
    case True
    show ?thesis
      using v g three True
      by (cases "gitError w (calls s @ [Log []]) (RawRebaseOnto (hash c1))")
         (simp_all add: removeSingleCommitByCoordinates_def removeSingleCommitByCoordinates_try_def
          Let_def commitToRemove_def toStr_2 removeSingleCommitByHash_def git_def)
  qed
qed

lemma target_0_0: "targetDateStr utc ref_2025_01_15 0 0 = ''2024-01-16''"
  using scenario_0_0 by (simp add: resolve_def validateCoordinates_def)

lemma matching_w3:
  "matchingCommits w3 [commit_a, commit_b, commit_d] ''2024-01-16'' = [commit_a, commit_b, commit_d]"
  by (simp add: matchingCommits_def w3_def w0_def commit_a_def commit_b_def commit_d_def parse0_def
      formatDate_def format_YMD_def zeroFill_def decimal.simps digit_char_def Let_def)

lemma w3_fields:
  "clock w3 = ref_2025_01_15"
  "localTime w3 = utc"
  "gitError w3 = (\<lambda>_ _. None)"
  "logResult w3 = (\<lambda>_. \<lparr>log_all = [commit_a, commit_b, commit_d], log_latest = Some commit_a\<rparr>)"
  by (simp_all add: w3_def w0_def)

lemma commit_a_fields: "hash commit_a = ''aaaaaaaa1''" "message commit_a = ''first''"
  by (simp_all add: commit_a_def)

lemma toStr_small: "toStr 0 = ''0''" "toStr 2 = ''2''" "toStr 3 = ''3''"
  by (simp_all add: toStr_def decimal.simps digit_char_def)

lemma coordText_0_0: "coordText 0 0 = ''x:0, y:0''"
  by (simp add: coordText_def toStr_small)

text \<open>
  The run of the single-commit script on three matches: nothing is returned, and the
  console names the first commit and only counts the other two.
\<close>

theorem no_skipped_outcome:
  "removeSingleCommitByCoordinates w3 0 0 True s0 =
     (Undefined,
      \<lparr>calls = [Log [], RawRebaseOnto ''aaaaaaaa1''],
       console = [Out ''Looking for commits on 2024-01-16 (x:0, y:0)'',
                  Out ''Found 3 commit(s) on this date.'',
                  Out ''Will remove ONLY the first one:'',
                  Out ''- aaaaaaa: first'',
                  Out ''Note: 2 other commit(s) will remain on this date.'',
                  Out ''Removing commit: aaaaaaaa1'',
                  Out ''Commit aaaaaaaa1 removed successfully'',
                  Out ''Successfully removed 1 commit for coordinates x:0, y:0''],
       questions = 0, closed = False\<rparr>)"
  by (simp add: removeSingleCommitByCoordinates_def removeSingleCommitByCoordinates_try_def
      validateCoordinates_def w3_fields target_0_0 matching_w3 git_def console_log_def s0_def
      commitToRemove_def Let_def toStr_small coordText_0_0 listCommit_def
      removeSingleCommitByHash_def commit_a_fields)

theorem single_removal_of_three_witness:
  "fst (removeSingleCommitByCoordinates w3 0 0 True s0) = Undefined \<and>
   calls (snd (removeSingleCommitByCoordinates w3 0 0 True s0))
     = [Log [], RawRebaseOnto ''aaaaaaaa1''] \<and>
   Out ''Note: 2 other commit(s) will remain on this date.''
     \<in> set (console (snd (removeSingleCommitByCoordinates w3 0 0 True s0)))"
proof -
  have l: "gitError w3 (calls s0) (Log []) = None" by (simp add: w3_fields)
  have m: "matchingCommits w3 (log_all (logResult w3 (calls s0))) (targetDateStr (localTime w3) (clock w3) 0 0)
             = [commit_a, commit_b, commit_d]"
    by (simp add: w3_fields target_0_0 matching_w3)
  have h: "hash commit_a = ''aaaaaaaa1''" by (simp add: commit_a_def)
  have c: "calls s0 = []" by (simp add: s0_def)
  show ?thesis
    using single_removal_of_three [OF _ _ _ _ l m, of True] by (simp add: h c)
qed

section \<open>Calls issued by the advanced script\<close>

lemma adds_no_refl: "adds_no P s s"
  by (simp add: adds_no_def)

lemma adds_no_same_calls: "calls s' = calls s \<Longrightarrow> adds_no P s s'"
  by (simp add: adds_no_def)

lemma adds_no_trans: "adds_no P s s1 \<Longrightarrow> adds_no P s1 s2 \<Longrightarrow> adds_no P s s2"
  by (auto simp add: adds_no_def)

lemma adds_no_git: "\<not> P c \<Longrightarrow> adds_no P s (snd (git w c s))"
  by (simp add: adds_no_def)

lemma adds_no_step: "adds_no P (s\<lparr>calls := calls s @ [c]\<rparr>) s' \<Longrightarrow> \<not> P c \<Longrightarrow> adds_no P s s'"
  by (auto simp add: adds_no_def)

lemma adds_no_closed: "adds_no P s s' \<Longrightarrow> adds_no P s (s'\<lparr>closed := b\<rparr>)"
  by (simp add: adds_no_def)

lemma adds_no_rebase:
  "(\<And>h. \<not> P (RawRebaseOnto h)) \<Longrightarrow> adds_no P s (removeCommitsUsingRebase w commits s)"
  by (simp add: adds_no_def rebase_calls filter_empty_conv)

lemma adds_no_filter:
  assumes "\<And>h. \<not> P (RawRebaseOnto h)" "\<And>hs. \<not> P (RawFilterBranch hs)" "\<And>a. \<not> P (Push a)"
  shows "adds_no P s (removeCommitsUsingFilter w commits target s)"
proof (cases "gitError w (calls s) (RawFilterBranch (map hash commits))")
  case None
  then show ?thesis
    by (cases "gitError w (calls s @ [RawFilterBranch (map hash commits)]) (Push [''-f'', ''origin'', ''main''])")
       (simp_all add: removeCommitsUsingFilter_def git_def adds_no_def assms)
next
  case (Some e)
  have "adds_no P (s\<lparr>calls := calls s @ [RawFilterBranch (map hash commits)]\<rparr>)
          (removeCommitsUsingRebase w commits (s\<lparr>calls := calls s @ [RawFilterBranch (map hash commits)]\<rparr>))"
    by (rule adds_no_rebase) (rule assms(1))
  then have "adds_no P s
          (removeCommitsUsingRebase w commits (s\<lparr>calls := calls s @ [RawFilterBranch (map hash commits)]\<rparr>))"
    by (rule adds_no_step) (rule assms(2))
  with Some show ?thesis by (simp add: removeCommitsUsingFilter_def git_def)
qed

lemma filter_questions:
  "questions (removeCommitsUsingFilter w commits target s) = questions s"
proof (cases "gitError w (calls s) (RawFilterBranch (map hash commits))")
  case None
  then show ?thesis
    by (cases "gitError w (calls s @ [RawFilterBranch (map hash commits)]) (Push [''-f'', ''origin'', ''main''])")
       (simp_all add: removeCommitsUsingFilter_def git_def)
next
  case (Some e)
  then show ?thesis by (simp add: removeCommitsUsingFilter_def git_def rebase_other_fields)
qed

lemma adds_no_deleteBranches:
  "(\<And>b. \<not> P (DeleteLocalBranch b)) \<Longrightarrow> adds_no P s (deleteBranches w branches s)"
proof (induction branches arbitrary: s)
  case Nil
  show ?case by (simp add: adds_no_refl)
next
  case (Cons b bs)
  show ?case
  proof (cases "gitError w (calls s) (DeleteLocalBranch b)")
    case None
    have "adds_no P (s\<lparr>calls := calls s @ [DeleteLocalBranch b]\<rparr>)
            (deleteBranches w bs (s\<lparr>calls := calls s @ [DeleteLocalBranch b]\<rparr>))"
      by (rule Cons.IH) (rule Cons.prems)
    then have "adds_no P s (deleteBranches w bs (s\<lparr>calls := calls s @ [DeleteLocalBranch b]\<rparr>))"
      by (rule adds_no_step) (rule Cons.prems)
    with None show ?thesis by (simp add: git_def)
  next
    case (Some e)
    then show ?thesis by (simp add: git_def adds_no_def Cons.prems)
  qed
qed

lemma adds_no_cleanup:
  assumes "\<And>b. \<not> P (DeleteLocalBranch b)" "\<not> P BranchLocal"
  shows "adds_no P s (cleanupBackupBranch w s)"
proof (cases "gitError w (calls s) BranchLocal")
  case None
  have d: "adds_no P s (deleteBranches w bs (s\<lparr>calls := calls s @ [BranchLocal]\<rparr>))" for bs
  proof -
    have "adds_no P (s\<lparr>calls := calls s @ [BranchLocal]\<rparr>)
            (deleteBranches w bs (s\<lparr>calls := calls s @ [BranchLocal]\<rparr>))"
      by (rule adds_no_deleteBranches) (rule assms(1))
    then show ?thesis by (rule adds_no_step) (rule assms(2))
  qed
  have r: "adds_no P s (s\<lparr>calls := calls s @ [BranchLocal]\<rparr>)"
    by (simp add: adds_no_def assms(2))
  from None show ?thesis
    by (simp add: cleanupBackupBranch_def git_def Let_def d r)
next
  case (Some e)
  then show ?thesis by (simp add: cleanupBackupBranch_def git_def adds_no_def assms(2))
qed

lemma adds_no_createBackup:
  assumes "\<And>n. \<not> P (CheckoutLocalBranch n)" "\<And>n. \<not> P (Checkout n)"
  shows "adds_no P s (snd (createBackup w s))"
proof (cases "gitError w (calls s) (CheckoutLocalBranch (''backup-before-removal-'' @ decimal (dateNow w)))")
  case None
  then show ?thesis
    by (cases "gitError w (calls s @ [CheckoutLocalBranch (''backup-before-removal-'' @ decimal (dateNow w))])
                 (Checkout ''main'')")
       (simp_all add: createBackup_def git_def adds_no_def assms Let_def)
next
  case (Some e)
  then show ?thesis by (simp add: createBackup_def git_def adds_no_def assms Let_def)
qed

lemma createBackup_questions: "questions (snd (createBackup w s)) = questions s"
proof (cases "gitError w (calls s) (CheckoutLocalBranch (''backup-before-removal-'' @ decimal (dateNow w)))")
  case None
  then show ?thesis
    by (cases "gitError w (calls s @ [CheckoutLocalBranch (''backup-before-removal-'' @ decimal (dateNow w))])
                 (Checkout ''main'')")
       (simp_all add: createBackup_def git_def Let_def)
next
  case (Some e)
  then show ?thesis by (simp add: createBackup_def git_def Let_def)
qed

lemma adds_no_after:
  "adds_no P s1 s' \<Longrightarrow> calls s1 = calls s @ [c] \<Longrightarrow> \<not> P c \<Longrightarrow> adds_no P s s'"
  by (auto simp add: adds_no_def)

lemma not_branchCall [simp]:
  "\<not> branchCall (Log a)" "\<not> branchCall (RawRebaseOnto h)" "\<not> branchCall (RawFilterBranch hs)"
  "\<not> branchCall (Push p)"
  by (simp_all add: branchCall_def)

lemma not_removalCall [simp]:
  "\<not> removalCall (Log a)" "\<not> removalCall (CheckoutLocalBranch n)" "\<not> removalCall (Checkout n)"
  "\<not> removalCall BranchLocal" "\<not> removalCall (DeleteLocalBranch n)"
  by (simp_all add: removalCall_def)

lemma not_mutating [simp]: "\<not> mutating (Log a)" "\<not> mutating BranchLocal"
  by (simp_all add: mutating_def)

lemma afterBackup_quiet:
  "adds_no branchCall s (snd (afterBackup w x y force False dryRun False s)) \<and>
   questions (snd (afterBackup w x y force False dryRun False s)) = questions s"
proof -
  let ?L = "Log [''--all'', ''--pretty=format:%H|%s|%ad'', ''--date=short'']"
  let ?s1 = "s\<lparr>calls := calls s @ [?L]\<rparr>"
  have r: "adds_no branchCall s ?s1" by (simp add: adds_no_def)
  have f: "adds_no branchCall s (removeCommitsUsingFilter w m t ?s1)" for m t
  proof -
    have "adds_no branchCall ?s1 (removeCommitsUsingFilter w m t ?s1)"
      by (rule adds_no_filter) simp_all
    then show ?thesis by (rule adds_no_after [where c = ?L]) simp_all
  qed
  have q: "questions (removeCommitsUsingFilter w m t ?s1) = questions s" for m t
    by (simp add: filter_questions)
  show ?thesis
    by (cases "gitError w (calls s) ?L")
       (simp_all add: afterBackup_def git_def Let_def r f q)
qed

lemma advanced_quiet:
  assumes "opt_interactive opts = Some False" "opt_backup opts = Some False"
  shows "adds_no branchCall s (snd (removeCommitByCoordinatesAdvanced w x y opts s)) \<and>
         questions (snd (removeCommitByCoordinatesAdvanced w x y opts s)) = questions s"
proof (cases "validateCoordinates x y")
  case (Inl e)
  then show ?thesis
    by (simp add: removeCommitByCoordinatesAdvanced_def removeCommitByCoordinatesAdvanced_try_def
        Let_def adds_no_def)
next
  case (Inr u)
  obtain r s' where a: "afterBackup w x y (orDefault (opt_force opts) False) False
                          (orDefault (opt_dryRun opts) False) False s = (r, s')"
    by (cases "afterBackup w x y (orDefault (opt_force opts) False) False
                          (orDefault (opt_dryRun opts) False) False s") auto
  with afterBackup_quiet [of s w x y "orDefault (opt_force opts) False" "orDefault (opt_dryRun opts) False"]
  have "adds_no branchCall s s'" "questions s' = questions s" by simp_all
  then have "adds_no branchCall s (s'\<lparr>closed := True\<rparr>)" "questions (s'\<lparr>closed := True\<rparr>) = questions s"
    by (simp_all add: adds_no_closed)
  with Inr a assms show ?thesis
    by (cases r)
       (simp_all add: removeCommitByCoordinatesAdvanced_def removeCommitByCoordinatesAdvanced_try_def
        Let_def orDefault_def)
qed

lemma pattern_quiet:
  "adds_no branchCall s (snd (removeCommitPattern w pattern opts s)) \<and>
   questions (snd (removeCommitPattern w pattern opts s)) = questions s"
proof (induction pattern arbitrary: s)
  case Nil
  show ?case by (simp add: adds_no_refl)
next
  case (Cons c rest)
  obtain x y where c: "c = (x, y)" by (cases c) auto
  let ?o = "opts\<lparr>opt_interactive := Some False, opt_backup := Some False\<rparr>"
  obtain r s1 where a: "removeCommitByCoordinatesAdvanced w x y ?o s = (r, s1)"
    by (cases "removeCommitByCoordinatesAdvanced w x y ?o s") auto
  from advanced_quiet [of ?o s w x y] a
  have s1: "adds_no branchCall s s1" "questions s1 = questions s" by simp_all
  show ?case
  proof (cases r)
    case (Inl e)
    with a c s1 show ?thesis by simp
  next
    case (Inr v)
    from Cons.IH [of s1] s1
    have "adds_no branchCall s (snd (removeCommitPattern w rest opts s1))"
      "questions (snd (removeCommitPattern w rest opts s1)) = questions s"
      by (auto intro: adds_no_trans)
    with Inr a c show ?thesis by simp
  qed
qed

lemma pattern_overrides:
  "removeCommitPattern w pattern (opts\<lparr>opt_interactive := i, opt_backup := b\<rparr>) s
     = removeCommitPattern w pattern opts s"
proof (induction pattern arbitrary: s)
  case Nil
  show ?case by simp
next
  case (Cons c rest)
  obtain x y where c: "c = (x, y)" by (cases c) auto
  let ?o = "opts\<lparr>opt_interactive := Some False, opt_backup := Some False\<rparr>"
  obtain r s1 where a: "removeCommitByCoordinatesAdvanced w x y ?o s = (r, s1)"
    by (cases "removeCommitByCoordinatesAdvanced w x y ?o s") auto
  show ?case unfolding c using a by (cases r) (simp_all add: Cons.IH)
qed

text \<open>What the loop does: nothing on the empty pattern, one removal per coordinate, in order.\<close>

lemma overrides_explicit:
  "opts\<lparr>opt_interactive := Some False, opt_backup := Some False\<rparr>
     = \<lparr>opt_force = opt_force opts, opt_interactive = Some False,
        opt_dryRun = opt_dryRun opts, opt_backup = Some False\<rparr>"
  by (cases opts) simp

lemma pattern_single:
  "removeCommitPattern w [(x, y)] opts s =
     (case removeCommitByCoordinatesAdvanced w x y
             \<lparr>opt_force = opt_force opts, opt_interactive = Some False,
              opt_dryRun = opt_dryRun opts, opt_backup = Some False\<rparr> s of
        (Inl e, s1) \<Rightarrow> (Inl e, s1)
      | (Inr v, s1) \<Rightarrow> (Inr (), s1))"
proof -
  let ?o = "opts\<lparr>opt_interactive := Some False, opt_backup := Some False\<rparr>"
  obtain r s1 where a: "removeCommitByCoordinatesAdvanced w x y ?o s = (r, s1)"
    by (cases "removeCommitByCoordinatesAdvanced w x y ?o s") auto
  have "removeCommitPattern w [(x, y)] opts s =
          (case (r, s1) of (Inl e, s1) \<Rightarrow> (Inl e, s1) | (Inr v, s1) \<Rightarrow> (Inr (), s1))"
    using a by (cases r) simp_all
  then show ?thesis unfolding a [symmetric] overrides_explicit .
qed

lemma pattern_append:
  "removeCommitPattern w (p @ q) opts s =
     (case removeCommitPattern w p opts s of
        (Inl e, s1) \<Rightarrow> (Inl e, s1)
      | (Inr u, s1) \<Rightarrow> removeCommitPattern w q opts s1)"
proof (induction p arbitrary: s)
  case Nil
  show ?case by simp
next
  case (Cons c rest)
  obtain x y where c: "c = (x, y)" by (cases c) auto
  let ?o = "opts\<lparr>opt_interactive := Some False, opt_backup := Some False\<rparr>"
  obtain r s1 where a: "removeCommitByCoordinatesAdvanced w x y ?o s = (r, s1)"
    by (cases "removeCommitByCoordinatesAdvanced w x y ?o s") auto
  show ?case unfolding c using a by (cases r) (simp_all add: Cons.IH)
qed

text \<open>
  C10: whatever pattern and options the caller gives, pattern removal runs the
  per-coordinate removal once for each coordinate, in order and until one throws, with
  \<open>interactive = false\<close> and \<open>backup = false\<close> in place of whatever the caller passed;
  so it issues no branch call (no backup branch is created, none is listed or deleted)
  and asks no question, and what the caller passes for \<open>interactive\<close> and \<open>backup\<close>
  changes nothing.
\<close>

theorem pattern_never_prompts_or_backs_up:
  "removeCommitPattern w [] opts s = (Inr (), s) \<and>
   removeCommitPattern w [(x, y)] opts s =
     (case removeCommitByCoordinatesAdvanced w x y
             \<lparr>opt_force = opt_force opts, opt_interactive = Some False,
              opt_dryRun = opt_dryRun opts, opt_backup = Some False\<rparr> s of
        (Inl e, s1) \<Rightarrow> (Inl e, s1)
      | (Inr v, s1) \<Rightarrow> (Inr (), s1)) \<and>
   removeCommitPattern w (p @ q) opts s =
     (case removeCommitPattern w p opts s of
        (Inl e, s1) \<Rightarrow> (Inl e, s1)
      | (Inr u, s1) \<Rightarrow> removeCommitPattern w q opts s1) \<and>
   adds_no branchCall s (snd (removeCommitPattern w pattern opts s)) \<and>
   questions (snd (removeCommitPattern w pattern opts s)) = questions s \<and>
   removeCommitPattern w pattern (opts\<lparr>opt_interactive := i, opt_backup := b\<rparr>) s
     = removeCommitPattern w pattern opts s"
  using pattern_quiet [of s w pattern opts] pattern_single [of w x y opts s]
    pattern_append [of w p q opts s]
  by (simp add: pattern_overrides)

section \<open>Declined confirmation and dry run\<close>

lemma afterBackup_declined:
  assumes a1: "toLowerCase (answers w (questions s)) \<noteq> ''y''"
    and a2: "toLowerCase (answers w (questions s)) \<noteq> ''yes''"
  shows "adds_no removalCall s (snd (afterBackup w x y False True False backup s)) \<and>
         ((\<exists>e. fst (afterBackup w x y False True False backup s) = Inl e) \<or>
          fst (afterBackup w x y False True False backup s) = Inr Undefined) \<and>
         (\<not> backup \<longrightarrow> adds_no mutating s (snd (afterBackup w x y False True False backup s)))"
proof -
  let ?L = "Log [''--all'', ''--pretty=format:%H|%s|%ad'', ''--date=short'']"
  let ?s1 = "s\<lparr>calls := calls s @ [?L]\<rparr>"
  let ?s2 = "s\<lparr>calls := calls s @ [?L], questions := Suc (questions s)\<rparr>"
  have r: "adds_no removalCall s ?s1" "adds_no removalCall s ?s2"
    "adds_no mutating s ?s1" "adds_no mutating s ?s2"
    by (simp_all add: adds_no_def)
  have c: "adds_no removalCall s (cleanupBackupBranch w s')" if "calls s' = calls s @ [?L]" for s'
  proof -
    have "adds_no removalCall s' (cleanupBackupBranch w s')"
      by (rule adds_no_cleanup) simp_all
    then show ?thesis using that by (rule adds_no_after [where c = ?L]) simp
  qed
  have c1: "adds_no removalCall s (cleanupBackupBranch w ?s1)" by (rule c) simp
  have c2: "adds_no removalCall s (cleanupBackupBranch w ?s2)" by (rule c) simp
  show ?thesis
    by (cases "gitError w (calls s) ?L"; cases "closed s")
       (simp_all add: afterBackup_def git_def askConfirmation_def Let_def a1 a2 r c1 c2)
qed

text \<open>
  C3 (as amended): in a removal that is not a dry run, is interactive and is not forced,
  when the user does not answer yes the script issues no filter-branch, rebase or push
  call and either rethrows an exception or returns nothing; with
  \<open>backup = false\<close> it issues no mutating call at all.
\<close>

theorem declined_confirmation:
  assumes d: "orDefault (opt_dryRun opts) False = False"
    and i: "orDefault (opt_interactive opts) True"
    and f: "\<not> orDefault (opt_force opts) False"
    and a1: "toLowerCase (answers w (questions s)) \<noteq> ''y''"
    and a2: "toLowerCase (answers w (questions s)) \<noteq> ''yes''"
  shows "adds_no removalCall s (snd (removeCommitByCoordinatesAdvanced w x y opts s)) \<and>
         ((\<exists>e. fst (removeCommitByCoordinatesAdvanced w x y opts s) = Inl e) \<or>
          fst (removeCommitByCoordinatesAdvanced w x y opts s) = Inr Undefined) \<and>
         (orDefault (opt_backup opts) True = False \<longrightarrow>
            adds_no mutating s (snd (removeCommitByCoordinatesAdvanced w x y opts s)))"
proof (cases "validateCoordinates x y")
  case (Inl e)
  then show ?thesis
    by (simp add: removeCommitByCoordinatesAdvanced_def removeCommitByCoordinatesAdvanced_try_def
        Let_def adds_no_def)
next
  case (Inr u)
  show ?thesis
  proof (cases "orDefault (opt_backup opts) True")
    case False
    from afterBackup_declined [OF a1 a2, of x y False]
    have "adds_no removalCall s (snd (afterBackup w x y False True False False s)\<lparr>closed := True\<rparr>)"
      "adds_no mutating s (snd (afterBackup w x y False True False False s)\<lparr>closed := True\<rparr>)"
      "(\<exists>e. fst (afterBackup w x y False True False False s) = Inl e) \<or>
          fst (afterBackup w x y False True False False s) = Inr Undefined"
      by (simp_all add: adds_no_closed)
    with Inr False d i f show ?thesis
      by (simp add: removeCommitByCoordinatesAdvanced_def removeCommitByCoordinatesAdvanced_try_def
          Let_def split_beta)
  next
    case True
    obtain r s1 where b: "createBackup w s = (r, s1)" by (cases "createBackup w s") auto
    have s1: "adds_no removalCall s s1" "questions s1 = questions s"
      using adds_no_createBackup [of removalCall s w] createBackup_questions [of w s] b by simp_all
    show ?thesis
    proof (cases r)
      case (Inl e)
      with Inr True d b s1 show ?thesis
        by (simp add: removeCommitByCoordinatesAdvanced_def removeCommitByCoordinatesAdvanced_try_def
            Let_def adds_no_closed)
    next
      case (Inr u')
      from a1 a2 s1(2) have a1': "toLowerCase (answers w (questions s1)) \<noteq> ''y''"
        and a2': "toLowerCase (answers w (questions s1)) \<noteq> ''yes''" by simp_all
      from afterBackup_declined [OF a1' a2', of x y True] s1(1)
      have "adds_no removalCall s (snd (afterBackup w x y False True False True s1)\<lparr>closed := True\<rparr>)"
        "(\<exists>e. fst (afterBackup w x y False True False True s1) = Inl e) \<or>
          fst (afterBackup w x y False True False True s1) = Inr Undefined"
        by (auto intro: adds_no_trans adds_no_closed)
      with Inr \<open>validateCoordinates x y = Inr u\<close> True d i f b show ?thesis
        by (simp add: removeCommitByCoordinatesAdvanced_def removeCommitByCoordinatesAdvanced_try_def
            Let_def split_beta)
    qed
  qed
qed

section \<open>Runs of the advanced script\<close>

lemma backup_name: "decimal (dateNow w0) = ''1736899200000''"
  by (simp add: w0_def decimal.simps digit_char_def)

lemma w0_fields:
  "clock w0 = ref_2025_01_15"
  "localTime w0 = utc"
  "gitError w0 = (\<lambda>_ _. None)"
  "logResult w0 = (\<lambda>_. \<lparr>log_all = [commit_a, commit_b, commit_c], log_latest = Some commit_a\<rparr>)"
  "branchesAll w0 = (\<lambda>_. [''main''])"
  "answers w0 = (\<lambda>_. ''n'')"
  by (simp_all add: w0_def)

lemma entries_w0:
  "matchingEntries (logEntries \<lparr>log_all = [commit_a, commit_b, commit_c], log_latest = Some commit_a\<rparr>)
     ''2024-01-16'' = [commit_a, commit_a, commit_b]"
  by (simp add: matchingEntries_def logEntries_def commit_a_def commit_b_def commit_c_def
      str_includes_def sublist_code prefix_code)

lemma main_not_backup: "\<not> str_includes ''main'' ''backup-before-removal''"
  by (simp add: str_includes_def sublist_code prefix_code)

lemma answer_n: "toLowerCase ''n'' = ''n''"
  by (simp add: toLowerCase_def)

lemma defaults_fields:
  "opt_force defaults = None" "opt_interactive defaults = None"
  "opt_dryRun defaults = None" "opt_backup defaults = None"
  by (simp_all add: defaults_def)


lemma createBackup_w0:
  "createBackup w0 s0 = (Inr (), s0\<lparr>calls := [CheckoutLocalBranch ''backup-before-removal-1736899200000'', Checkout ''main'']\<rparr>)"
  by (simp add: createBackup_def backup_name git_def w0_fields s0_def Let_def)

lemma cleanup_w0:
  "calls s = cs \<Longrightarrow> cleanupBackupBranch w0 s = s\<lparr>calls := cs @ [BranchLocal]\<rparr>"
  by (simp add: cleanupBackupBranch_def git_def w0_fields main_not_backup Let_def)


lemma ask_w0:
  "\<not> closed s \<Longrightarrow> askConfirmation w0 s = (Inr False, s\<lparr>questions := questions s + 1\<rparr>)"
  by (simp add: askConfirmation_def w0_fields answer_n Let_def)

lemma afterBackup_w0:
  "\<not> closed s \<Longrightarrow> afterBackup w0 0 0 False True False backup s
     = (Inr Undefined,
        (if backup then cleanupBackupBranch w0 else id)
          (s\<lparr>calls := calls s @ [Log [''--all'', ''--pretty=format:%H|%s|%ad'', ''--date=short'']],
             questions := questions s + 1\<rparr>))"
  by (simp add: afterBackup_def git_def w0_fields target_0_0 entries_w0 ask_w0 Let_def)


lemma try_w0:
  "removeCommitByCoordinatesAdvanced_try w0 0 0 defaults s0 =
     (Inr Undefined,
      \<lparr>calls = [CheckoutLocalBranch ''backup-before-removal-1736899200000'', Checkout ''main'',
                Log [''--all'', ''--pretty=format:%H|%s|%ad'', ''--date=short''], BranchLocal],
       console = [], questions = 1, closed = False\<rparr>)"
proof -
  have c: "\<not> closed (s0\<lparr>calls := [CheckoutLocalBranch ''backup-before-removal-1736899200000'',
                                   Checkout ''main'']\<rparr>)"
    by (simp add: s0_def)
  have "removeCommitByCoordinatesAdvanced_try w0 0 0 defaults s0 =
          afterBackup w0 0 0 False True False True
            (s0\<lparr>calls := [CheckoutLocalBranch ''backup-before-removal-1736899200000'',
                             Checkout ''main'']\<rparr>)"
    by (simp add: removeCommitByCoordinatesAdvanced_try_def validateCoordinates_def
        defaults_fields orDefault_def createBackup_w0 Let_def)
  also have "\<dots> = (Inr Undefined,
      \<lparr>calls = [CheckoutLocalBranch ''backup-before-removal-1736899200000'', Checkout ''main'',
                Log [''--all'', ''--pretty=format:%H|%s|%ad'', ''--date=short''], BranchLocal],
       console = [], questions = 1, closed = False\<rparr>)"
    unfolding afterBackup_w0 [OF c] by (simp add: cleanup_w0 s0_def)
  finally show ?thesis .
qed

text \<open>
  With the default options the backup branch is created before the question is asked, so
  a declined confirmation leaves the repository with one branch more and returns nothing.
\<close>

theorem declined_leaves_backup_branch:
  "removeCommitByCoordinatesAdvanced w0 0 0 defaults s0 =
     (Inr Undefined,
      \<lparr>calls = [CheckoutLocalBranch ''backup-before-removal-1736899200000'', Checkout ''main'',
                Log [''--all'', ''--pretty=format:%H|%s|%ad'', ''--date=short''], BranchLocal],
       console = [], questions = 1, closed = True\<rparr>) \<and>
   filter mutating (calls (snd (removeCommitByCoordinatesAdvanced w0 0 0 defaults s0)))
     = [CheckoutLocalBranch ''backup-before-removal-1736899200000'', Checkout ''main'']"
  by (simp add: removeCommitByCoordinatesAdvanced_def try_w0 mutating_def)


theorem declined_confirmation_witness:
  "adds_no mutating s0
     (snd (removeCommitByCoordinatesAdvanced w0 0 0 (defaults\<lparr>opt_backup := Some False\<rparr>) s0)) \<and>
   adds_no removalCall s0
     (snd (removeCommitByCoordinatesAdvanced w0 0 0 (defaults\<lparr>opt_backup := Some False\<rparr>) s0)) \<and>
   fst (removeCommitByCoordinatesAdvanced w0 0 0 (defaults\<lparr>opt_backup := Some False\<rparr>) s0)
     = Inr Undefined"
proof -
  have c: "\<not> closed s0" by (simp add: s0_def)
  have r: "fst (removeCommitByCoordinatesAdvanced w0 0 0 (defaults\<lparr>opt_backup := Some False\<rparr>) s0)
             = Inr Undefined"
    by (simp add: removeCommitByCoordinatesAdvanced_def removeCommitByCoordinatesAdvanced_try_def
        validateCoordinates_def defaults_fields orDefault_def afterBackup_w0 [OF c] Let_def)
  have a: "toLowerCase (answers w0 (questions s0)) \<noteq> ''y''"
    "toLowerCase (answers w0 (questions s0)) \<noteq> ''yes''"
    by (simp_all add: w0_fields answer_n)
  have o: "orDefault (opt_dryRun (defaults\<lparr>opt_backup := Some False\<rparr>)) False = False"
    "orDefault (opt_interactive (defaults\<lparr>opt_backup := Some False\<rparr>)) True"
    "\<not> orDefault (opt_force (defaults\<lparr>opt_backup := Some False\<rparr>)) False"
    "orDefault (opt_backup (defaults\<lparr>opt_backup := Some False\<rparr>)) True = False"
    by (simp_all add: defaults_fields orDefault_def)
  from declined_confirmation [OF o(1) o(2) o(3) a, of 0 0] o(4) r
  show ?thesis by simp
qed

lemma backups_fields:
  "clock w_backups = ref_2025_01_15"
  "localTime w_backups = utc"
  "gitError w_backups = (\<lambda>_ _. None)"
  "logResult w_backups = (\<lambda>_. \<lparr>log_all = [], log_latest = None\<rparr>)"
  "branchesAll w_backups = (\<lambda>_. [''backup-before-removal-1'', ''backup-before-removal-2'',
                               ''backup-before-removal-3'', ''backup-before-removal-4'',
                               ''backup-before-removal-5'', ''backup-before-removal-6'',
                               ''backup-before-removal-7'', ''main''])"
  by (simp_all add: w_backups_def w0_def)

lemma cleanup_w_backups:
  "cleanupBackupBranch w_backups s
     = s\<lparr>calls := calls s @ [BranchLocal, DeleteLocalBranch ''backup-before-removal-1'',
                                DeleteLocalBranch ''backup-before-removal-2'']\<rparr>"
  by (simp add: cleanupBackupBranch_def git_def backups_fields str_includes_def sublist_code
      prefix_code Let_def)

lemma afterBackup_w_backups:
  "afterBackup w_backups 0 0 False True True True s
     = (Inr Undefined,
        s\<lparr>calls := calls s @ [Log [''--all'', ''--pretty=format:%H|%s|%ad'', ''--date=short''],
                  BranchLocal, DeleteLocalBranch ''backup-before-removal-1'',
                  DeleteLocalBranch ''backup-before-removal-2'']\<rparr>)"
  by (simp add: afterBackup_def git_def backups_fields matchingEntries_def logEntries_def
      cleanup_w_backups Let_def)

text \<open>
  What a dry run can do at most: besides reading the log and the branch list, it deletes
  branches in the clean-up; it creates no branch and removes no commit.
\<close>

lemma not_createsOrRemoves [simp]:
  "\<not> createsOrRemoves (Log a)" "\<not> createsOrRemoves BranchLocal"
  "\<not> createsOrRemoves (DeleteLocalBranch b)"
  by (simp_all add: createsOrRemoves_def mutating_def)

lemma dry_run_only_cleans_up:
  assumes "orDefault (opt_dryRun opts) False"
  shows "adds_no createsOrRemoves s (snd (removeCommitByCoordinatesAdvanced w x y opts s))"
proof -
  let ?L = "Log [''--all'', ''--pretty=format:%H|%s|%ad'', ''--date=short'']"
  let ?s1 = "s\<lparr>calls := calls s @ [?L]\<rparr>"
  have r: "adds_no createsOrRemoves s ?s1" by (simp add: adds_no_def)
  have c: "adds_no createsOrRemoves s (cleanupBackupBranch w ?s1)"
  proof -
    have "adds_no createsOrRemoves ?s1 (cleanupBackupBranch w ?s1)"
      by (rule adds_no_cleanup) simp_all
    then show ?thesis by (rule adds_no_after [where c = ?L]) simp_all
  qed
  have a: "adds_no createsOrRemoves s (snd (afterBackup w x y f i True b s)\<lparr>closed := True\<rparr>)" for f i b
    by (cases "gitError w (calls s) ?L")
       (simp_all add: afterBackup_def git_def Let_def r c adds_no_closed)
  show ?thesis
    using assms a
    by (cases "validateCoordinates x y")
       (simp_all add: removeCommitByCoordinatesAdvanced_def removeCommitByCoordinatesAdvanced_try_def
        Let_def split_beta adds_no_def)
qed

text \<open>
  C2: a dry run is meant to issue no mutating call, whatever the selection. With the
  default \<open>backup\<close>, no matching commit and seven backup branches in the repository,
  the dry run of the advanced script deletes the two oldest backup branches.
\<close>

theorem dry_run_deletes_branches:
  "removeCommitByCoordinatesAdvanced w_backups 0 0 (defaults\<lparr>opt_dryRun := Some True\<rparr>) s0 =
     (Inr Undefined,
      \<lparr>calls = [Log [''--all'', ''--pretty=format:%H|%s|%ad'', ''--date=short''], BranchLocal,
                DeleteLocalBranch ''backup-before-removal-1'',
                DeleteLocalBranch ''backup-before-removal-2''],
       console = [], questions = 0, closed = True\<rparr>) \<and>
   filter mutating
     (calls (snd (removeCommitByCoordinatesAdvanced w_backups 0 0
                    (defaults\<lparr>opt_dryRun := Some True\<rparr>) s0)))
     = [DeleteLocalBranch ''backup-before-removal-1'', DeleteLocalBranch ''backup-before-removal-2'']"
  by (simp add: removeCommitByCoordinatesAdvanced_def removeCommitByCoordinatesAdvanced_try_def
      validateCoordinates_def defaults_fields orDefault_def afterBackup_w_backups s0_def
      mutating_def Let_def)

text \<open>
  A run of pattern removal on two coordinates by a caller who asks for confirmation and
  for a backup: the commits of the first coordinate are removed without a question and
  without a backup branch, and the second coordinate, which has no commit, is visited.
\<close>

lemma target_1_2: "targetDateStr utc ref_2025_01_15 1 2 = ''2024-01-25''"
  using scenario_1_2 by (simp add: resolve_def validateCoordinates_def)

lemma no_entries_w0:
  "matchingEntries (logEntries \<lparr>log_all = [commit_a, commit_b, commit_c], log_latest = Some commit_a\<rparr>)
     ''2024-01-25'' = []"
  by (simp add: matchingEntries_def logEntries_def commit_a_def commit_b_def commit_c_def
      str_includes_def sublist_code prefix_code)

lemma hashes_w0: "hash commit_a = ''aaaaaaaa1''" "hash commit_b = ''bbbbbbbb2''"
  by (simp_all add: commit_a_def commit_b_def)

lemma filter_w0:
  "removeCommitsUsingFilter w0 [commit_a, commit_a, commit_b] t s
     = s\<lparr>calls := calls s @ [RawFilterBranch [''aaaaaaaa1'', ''aaaaaaaa1'', ''bbbbbbbb2''],
                                Push [''-f'', ''origin'', ''main'']]\<rparr>"
  by (simp add: removeCommitsUsingFilter_def hashes_w0 git_def w0_fields Let_def)

lemma unattended_0_0:
  "afterBackup w0 0 0 False False False False s
     = (Inr Undefined,
        s\<lparr>calls := calls s @ [Log [''--all'', ''--pretty=format:%H|%s|%ad'', ''--date=short''],
                                RawFilterBranch [''aaaaaaaa1'', ''aaaaaaaa1'', ''bbbbbbbb2''],
                                Push [''-f'', ''origin'', ''main'']]\<rparr>)"
  by (simp add: afterBackup_def git_def w0_fields target_0_0 entries_w0 filter_w0 Let_def)

lemma unattended_1_2:
  "afterBackup w0 1 2 False False False False s
     = (Inr Undefined,
        s\<lparr>calls := calls s @ [Log [''--all'', ''--pretty=format:%H|%s|%ad'', ''--date=short'']]\<rparr>)"
  by (simp add: afterBackup_def git_def w0_fields target_1_2 no_entries_w0 Let_def)

lemma asking_fields:
  "opt_force (defaults\<lparr>opt_interactive := Some True, opt_backup := Some True\<rparr>) = None"
  "opt_dryRun (defaults\<lparr>opt_interactive := Some True, opt_backup := Some True\<rparr>) = None"
  by (simp_all add: defaults_def)

theorem pattern_never_prompts_or_backs_up_witness:
  "removeCommitPattern w0 ([(0, 0)] @ [(1, 2)])
     (defaults\<lparr>opt_interactive := Some True, opt_backup := Some True\<rparr>) s0 =
     (Inr (),
      \<lparr>calls = [Log [''--all'', ''--pretty=format:%H|%s|%ad'', ''--date=short''],
                RawFilterBranch [''aaaaaaaa1'', ''aaaaaaaa1'', ''bbbbbbbb2''],
                Push [''-f'', ''origin'', ''main''],
                Log [''--all'', ''--pretty=format:%H|%s|%ad'', ''--date=short'']],
       console = [], questions = 0, closed = True\<rparr>)"
proof -
  let ?o = "defaults\<lparr>opt_interactive := Some True, opt_backup := Some True\<rparr>"
  let ?L = "Log [''--all'', ''--pretty=format:%H|%s|%ad'', ''--date=short'']"
  let ?s1 = "\<lparr>calls = [?L, RawFilterBranch [''aaaaaaaa1'', ''aaaaaaaa1'', ''bbbbbbbb2''],
                       Push [''-f'', ''origin'', ''main'']],
              console = [], questions = 0, closed = True\<rparr>"
  have one: "removeCommitPattern w0 [(0, 0)] ?o s0 = (Inr (), ?s1)"
    unfolding pattern_never_prompts_or_backs_up
      [where w = w0 and opts = ?o and s = s0 and x = 0 and y = 0, THEN conjunct2, THEN conjunct1]
    by (simp add: asking_fields removeCommitByCoordinatesAdvanced_def
        removeCommitByCoordinatesAdvanced_try_def validateCoordinates_def orDefault_def
        unattended_0_0 s0_def Let_def)
  have two: "removeCommitPattern w0 [(1, 2)] ?o ?s1
               = (Inr (), ?s1\<lparr>calls := calls ?s1 @ [?L]\<rparr>)"
    unfolding pattern_never_prompts_or_backs_up
      [where w = w0 and opts = ?o and s = ?s1 and x = 1 and y = 2, THEN conjunct2, THEN conjunct1]
    by (simp add: asking_fields removeCommitByCoordinatesAdvanced_def
        removeCommitByCoordinatesAdvanced_try_def validateCoordinates_def orDefault_def
        unattended_1_2 Let_def)
  have "removeCommitPattern w0 ([(0, 0)] @ [(1, 2)]) ?o s0
          = removeCommitPattern w0 [(1, 2)] ?o ?s1"
    unfolding pattern_never_prompts_or_backs_up
      [where w = w0 and opts = ?o and s = s0 and p = "[(0, 0)]" and q = "[(1, 2)]",
        THEN conjunct2, THEN conjunct2, THEN conjunct1] one
    by (simp only: prod.case sum.case)
  also have "\<dots> = (Inr (), ?s1\<lparr>calls := calls ?s1 @ [?L]\<rparr>)" by (rule two)
  finally show ?thesis by simp
qed

end
